theory Spec2Isabelle
  imports Main
begin

section \<open>Data model\<close>

text \<open>
  The alerting system keeps five tables (users, teams, alerts, per-user alert
  preferences, notification deliveries) behind an ORM session. The embedding below
  follows \<^verbatim>\<open>app/models\<close> and \<^verbatim>\<open>app/services\<close>: a table is the list of its rows in
  row order, a nullable column is an \<open>option\<close>, a query with \<^verbatim>\<open>.first()\<close> is the
  first row that passes the filter, and \<^verbatim>\<open>.all()\<close> is the filtered list.

  Timestamps are integers counting microseconds (the resolution of Python's
  \<^verbatim>\<open>datetime\<close>); the clock \<^verbatim>\<open>datetime.utcnow()\<close> is an explicit argument \<open>now\<close>, and the
  clock reads of one call are taken at the same instant.
\<close>

type_synonym datetime = int

definition minutes :: "int \<Rightarrow> int" where
  "minutes m = m * 60000000"

definition hours :: "int \<Rightarrow> int" where
  "hours h = h * 3600000000"

text \<open>
  The enumerations of \<^verbatim>\<open>app/models/alert.py\<close> and \<^verbatim>\<open>app/models/notification_delivery.py\<close>.
  \<^verbatim>\<open>DeliveryType\<close> and \<^verbatim>\<open>DeliveryChannel\<close> are two classes with members of the same names;
  constructor names are global here, so the members of \<^verbatim>\<open>DeliveryType\<close> carry the prefix
  \<open>TYPE_\<close>.
\<close>

datatype VisibilityType = ORGANIZATION | TEAM | USER

datatype AlertStatus = ACTIVE | EXPIRED | ARCHIVED

datatype DeliveryType = TYPE_IN_APP | TYPE_EMAIL | TYPE_SMS

datatype DeliveryStatus = PENDING | SENT | DELIVERED | FAILED | READ

datatype DeliveryChannel = IN_APP | EMAIL | SMS

record user =
  user_id :: int
  user_email :: string
  user_team_id :: "int option"
  user_is_active :: bool

record team =
  team_id :: int

text \<open>
  The columns \<^verbatim>\<open>target_team_ids\<close> and \<^verbatim>\<open>target_user_ids\<close> are text columns that the
  services fill with \<^verbatim>\<open>json.dumps\<close> of a list of integers and read back with
  \<^verbatim>\<open>json.loads\<close>. The record keeps the list; where the code matches the stored text
  (the \<^verbatim>\<open>LIKE\<close> filters) the list is serialised again with \<open>json_dumps\<close> below.
  Title, message and severity of an alert take part in no decision and are left out.
\<close>

record alert =
  alert_id :: int
  delivery_type :: DeliveryType
  visibility_type :: VisibilityType
  status :: AlertStatus
  start_time :: datetime
  expiry_time :: "datetime option"
  reminder_interval_hours :: int
  reminders_enabled :: bool
  target_team_ids :: "int list option"
  target_user_ids :: "int list option"
  created_by :: int

record user_alert_preference =
  pref_id :: int
  pref_user_id :: int
  pref_alert_id :: int
  is_read :: bool
  read_at :: "datetime option"
  is_snoozed :: bool
  snoozed_at :: "datetime option"
  snoozed_until :: "datetime option"
  snooze_count :: int
  last_reminded_at :: "datetime option"
  reminder_count :: int
  pref_updated_at :: "datetime option"

record notification_delivery =
  delivery_id :: int
  delivery_alert_id :: int
  delivery_user_id :: int
  channel :: DeliveryChannel
  delivery_status :: DeliveryStatus
  delivery_address :: "string option"
  scheduled_at :: datetime
  sent_at :: "datetime option"
  delivered_at :: "datetime option"
  delivery_read_at :: "datetime option"
  retry_count :: int
  max_retries :: int
  next_retry_at :: "datetime option"
  error_message :: "string option"
  is_reminder :: bool
  reminder_sequence :: "int option"

record db =
  users :: "user list"
  teams :: "team list"
  alerts :: "alert list"
  preferences :: "user_alert_preference list"
  deliveries :: "notification_delivery list"

section \<open>Model methods\<close>

subsection \<open>\<^verbatim>\<open>Alert.is_active\<close>\<close>

definition alert_is_active :: "datetime \<Rightarrow> alert \<Rightarrow> bool" where
  "alert_is_active now a =
     (if status a \<noteq> ACTIVE then False
      else if now < start_time a then False
      else (case expiry_time a of
              Some e \<Rightarrow> (if e < now then False else True)
            | None \<Rightarrow> True))"

subsection \<open>\<^verbatim>\<open>UserAlertPreference\<close>\<close>

text \<open>
  \<^verbatim>\<open>should_receive_reminder\<close> is a property that also writes: an expired snooze is
  cleared on the row. The model returns the answer and the row as it is left.
  \<^verbatim>\<open>self.alert\<close> is the alert the row points to, absent when there is none; then
  \<^verbatim>\<open>getattr\<close> falls back to two hours. \<^verbatim>\<open>total_seconds()\<close> is compared with a whole
  number of seconds, which on microsecond counts is the comparison written here.
\<close>

definition should_receive_reminder ::
    "datetime \<Rightarrow> alert option \<Rightarrow> user_alert_preference \<Rightarrow> bool \<times> user_alert_preference" where
  "should_receive_reminder now a p =
     (if is_snoozed p \<and> (case snoozed_until p of Some u \<Rightarrow> now < u | None \<Rightarrow> False)
      then (False, p)
      else
        let p1 = (if is_snoozed p then p\<lparr>is_snoozed := False, snoozed_until := None\<rparr> else p) in
        if is_read p1 then (False, p1)
        else (case last_reminded_at p1 of
                Some l \<Rightarrow>
                  let interval_hours = (case a of Some al \<Rightarrow> reminder_interval_hours al | None \<Rightarrow> 2) in
                  if now - l < interval_hours * 3600 * 1000000 then (False, p1) else (True, p1)
              | None \<Rightarrow> (True, p1)))"

definition mark_as_read :: "datetime \<Rightarrow> user_alert_preference \<Rightarrow> user_alert_preference" where
  "mark_as_read now p = p\<lparr>is_read := True, read_at := Some now, pref_updated_at := Some now\<rparr>"

definition day :: int where
  "day = 86400000000"

definition end_of_day :: "datetime \<Rightarrow> datetime" where
  "end_of_day now = (now div day) * day + (23 * 3600 + 59 * 60 + 59) * 1000000"

definition snooze_for_day :: "datetime \<Rightarrow> user_alert_preference \<Rightarrow> user_alert_preference" where
  "snooze_for_day now p =
     p\<lparr>is_snoozed := True, snoozed_at := Some now, snoozed_until := Some (end_of_day now),
       snooze_count := snooze_count p + 1, pref_updated_at := Some now\<rparr>"

section \<open>Text of identifiers\<close>

text \<open>
  \<^verbatim>\<open>str\<close> of a Python integer (decimal digits, a minus sign when negative),
  \<^verbatim>\<open>json.dumps\<close> of a list of integers (\<^verbatim>\<open>[1, 2, 3]\<close>), and the SQL filter
  \<^verbatim>\<open>column LIKE '%pat%'\<close> for a pattern without wildcard characters: the pattern occurs
  somewhere in the column's text.
\<close>

definition digit_char :: "nat \<Rightarrow> char" where
  "digit_char n = ''0123456789'' ! (n mod 10)"

fun str_nat :: "nat \<Rightarrow> string" where
  "str_nat n = (if n < 10 then [digit_char n] else str_nat (n div 10) @ [digit_char n])"

declare str_nat.simps [simp del]

definition str_int :: "int \<Rightarrow> string" where
  "str_int i = (if i < 0 then CHR ''-'' # str_nat (nat (- i)) else str_nat (nat i))"

fun join_comma :: "string list \<Rightarrow> string" where
  "join_comma [] = []"
| "join_comma [s] = s"
| "join_comma (s # t # ss) = s @ '', '' @ join_comma (t # ss)"

definition json_dumps :: "int list \<Rightarrow> string" where
  "json_dumps xs = ''['' @ join_comma (map str_int xs) @ '']''"

fun starts_with :: "string \<Rightarrow> string \<Rightarrow> bool" where
  "starts_with [] s = True"
| "starts_with (c # cs) [] = False"
| "starts_with (c # cs) (x # xs) = (c = x \<and> starts_with cs xs)"

fun like_contains :: "string \<Rightarrow> string \<Rightarrow> bool" where
  "like_contains pat [] = starts_with pat []"
| "like_contains pat (x # xs) = (starts_with pat (x # xs) \<or> like_contains pat xs)"

section \<open>Request payloads\<close>

text \<open>
  \<^verbatim>\<open>app/schemas/alert.py\<close> declares enumerations of its own, with the members of the
  model enumerations but as separate classes that also derive from \<^verbatim>\<open>str\<close>. A payload
  carries a member of the schema class. Members of enumerations are singletons, and
  \<^verbatim>\<open>==\<close> between a member of the schema class and a member of the model class falls
  through \<^verbatim>\<open>str.__eq__\<close> (the other side is no string) to identity: it is false for
  every pair. \<open>py_eq\<close> is that comparison on the values a visibility expression can hold.
  The members of the schema class carry the prefix \<open>SCHEMA_\<close>.
\<close>

datatype SchemaVisibilityType = SCHEMA_ORGANIZATION | SCHEMA_TEAM | SCHEMA_USER

datatype visibility_value =
    ModelVisibility VisibilityType
  | SchemaVisibility SchemaVisibilityType

fun py_eq :: "visibility_value \<Rightarrow> visibility_value \<Rightarrow> bool" where
  "py_eq (ModelVisibility a) (ModelVisibility b) = (a = b)"
| "py_eq (SchemaVisibility a) (SchemaVisibility b) = (a = b)"
| "py_eq (ModelVisibility a) (SchemaVisibility b) = False"
| "py_eq (SchemaVisibility a) (ModelVisibility b) = False"







datatype error = ValueError string | DatabaseError

section \<open>Alert service\<close>

text \<open>
  Names follow \<^verbatim>\<open>app/services/alert_service.py\<close>; a leading underscore of a private
  method is dropped. A new row gets the next free primary key.
\<close>

definition next_id :: "int list \<Rightarrow> int" where
  "next_id ids = fold max ids 0 + 1"

definition get_by_id :: "db \<Rightarrow> int \<Rightarrow> alert option" where
  "get_by_id d aid = find (\<lambda>a. alert_id a = aid) (alerts d)"

definition get_user :: "db \<Rightarrow> int \<Rightarrow> user option" where
  "get_user d uid = find (\<lambda>u. user_id u = uid) (users d)"

definition get_team :: "db \<Rightarrow> int \<Rightarrow> team option" where
  "get_team d tid = find (\<lambda>t. team_id t = tid) (teams d)"

definition find_preference :: "db \<Rightarrow> int \<Rightarrow> int \<Rightarrow> user_alert_preference option" where
  "find_preference d aid uid =
     find (\<lambda>p. pref_alert_id p = aid \<and> pref_user_id p = uid) (preferences d)"

definition validate_alert_targeting ::
    "db \<Rightarrow> visibility_value \<Rightarrow> int list option \<Rightarrow> int list option \<Rightarrow> error option" where
  "validate_alert_targeting d vis tids uids =
     (if py_eq vis (ModelVisibility TEAM) then
        (case tids of
           None \<Rightarrow> Some (ValueError ''Team IDs required for team-specific alerts'')
         | Some ts \<Rightarrow>
             if ts = [] then Some (ValueError ''Team IDs required for team-specific alerts'')
             else (case find (\<lambda>t. get_team d t = None) ts of
                     Some t \<Rightarrow> Some (ValueError (''Team with ID '' @ str_int t @ '' does not exist''))
                   | None \<Rightarrow> None))
      else if py_eq vis (ModelVisibility USER) then
        (case uids of
           None \<Rightarrow> Some (ValueError ''User IDs required for user-specific alerts'')
         | Some us \<Rightarrow>
             if us = [] then Some (ValueError ''User IDs required for user-specific alerts'')
             else (case find (\<lambda>u. get_user d u = None) us of
                     Some u \<Rightarrow> Some (ValueError (''User with ID '' @ str_int u @ '' does not exist''))
                   | None \<Rightarrow> None))
      else None)"

definition get_target_users_for_alert :: "db \<Rightarrow> alert \<Rightarrow> user list" where
  "get_target_users_for_alert d a =
     (case visibility_type a of
        ORGANIZATION \<Rightarrow> filter user_is_active (users d)
      | TEAM \<Rightarrow>
          (let team_ids = (case target_team_ids a of Some ts \<Rightarrow> ts | None \<Rightarrow> [])
           in filter (\<lambda>u. user_is_active u \<and>
                           (case user_team_id u of Some t \<Rightarrow> t \<in> set team_ids | None \<Rightarrow> False))
                     (users d))
      | USER \<Rightarrow>
          (let user_ids = (case target_user_ids a of Some us \<Rightarrow> us | None \<Rightarrow> [])
           in filter (\<lambda>u. user_is_active u \<and> user_id u \<in> set user_ids) (users d)))"

text \<open>
  A fresh preference row with the column defaults. \<open>pref_updated_at = None\<close> stands for
  the insert-time value the database fills in.
\<close>

definition new_preference :: "int \<Rightarrow> int \<Rightarrow> int \<Rightarrow> user_alert_preference" where
  "new_preference pid uid aid =
     \<lparr>pref_id = pid, pref_user_id = uid, pref_alert_id = aid,
      is_read = False, read_at = None,
      is_snoozed = False, snoozed_at = None, snoozed_until = None, snooze_count = 0,
      last_reminded_at = None, reminder_count = 0, pref_updated_at = None\<rparr>"

definition add_preference :: "int \<Rightarrow> int \<Rightarrow> db \<Rightarrow> db" where
  "add_preference uid aid d =
     d\<lparr>preferences :=
         preferences d @ [new_preference (next_id (map pref_id (preferences d))) uid aid]\<rparr>"

text \<open>An attribute written on a loaded row reaches the table row with that primary key.\<close>

definition update_preference :: "user_alert_preference \<Rightarrow> db \<Rightarrow> db" where
  "update_preference p d =
     d\<lparr>preferences := map (\<lambda>x. if pref_id x = pref_id p then p else x) (preferences d)\<rparr>"

fun create_preferences_loop :: "alert \<Rightarrow> user list \<Rightarrow> db \<Rightarrow> db" where
  "create_preferences_loop a [] d = d"
| "create_preferences_loop a (u # us) d =
     (case find_preference d (alert_id a) (user_id u) of
        Some existing \<Rightarrow> create_preferences_loop a us d
      | None \<Rightarrow> create_preferences_loop a us (add_preference (user_id u) (alert_id a) d))"








text \<open>
  \<^verbatim>\<open>get_alerts_for_user\<close>: active alerts that pass the visibility filter, outer-joined
  with the user's preference rows, optionally without the read ones, then paginated.
  The team and user filters match the decimal text of the id inside the stored JSON
  text.
\<close>

record alert_row =
  row_alert :: alert
  row_is_active :: bool
  row_is_read :: bool
  row_is_snoozed :: bool
  row_snoozed_until :: "datetime option"
  row_read_at :: "datetime option"

definition visibility_filter :: "user \<Rightarrow> int \<Rightarrow> alert \<Rightarrow> bool" where
  "visibility_filter u uid a =
     (visibility_type a = ORGANIZATION
      \<or> (case user_team_id u of
            Some t \<Rightarrow>
              t \<noteq> 0 \<and> visibility_type a = TEAM \<and>
              (case target_team_ids a of
                 Some ts \<Rightarrow> like_contains (str_int t) (json_dumps ts)
               | None \<Rightarrow> False)
          | None \<Rightarrow> False)
      \<or> (visibility_type a = USER \<and>
          (case target_user_ids a of
             Some us \<Rightarrow> like_contains (str_int uid) (json_dumps us)
           | None \<Rightarrow> False)))"

definition outer_join_preferences ::
    "db \<Rightarrow> int \<Rightarrow> alert \<Rightarrow> (alert \<times> user_alert_preference option) list" where
  "outer_join_preferences d uid a =
     (case filter (\<lambda>p. pref_alert_id p = alert_id a \<and> pref_user_id p = uid) (preferences d) of
        [] \<Rightarrow> [(a, None)]
      | ps \<Rightarrow> map (\<lambda>p. (a, Some p)) ps)"

definition format_row :: "datetime \<Rightarrow> alert \<times> user_alert_preference option \<Rightarrow> alert_row" where
  "format_row now r =
     (case r of
        (a, None) \<Rightarrow>
          \<lparr>row_alert = a, row_is_active = alert_is_active now a, row_is_read = False,
           row_is_snoozed = False, row_snoozed_until = None, row_read_at = None\<rparr>
      | (a, Some p) \<Rightarrow>
          \<lparr>row_alert = a, row_is_active = alert_is_active now a, row_is_read = is_read p,
           row_is_snoozed = is_snoozed p, row_snoozed_until = snoozed_until p,
           row_read_at = read_at p\<rparr>)"

definition get_alerts_for_user ::
    "datetime \<Rightarrow> db \<Rightarrow> int \<Rightarrow> bool \<Rightarrow> nat \<Rightarrow> nat \<Rightarrow> alert_row list" where
  "get_alerts_for_user now d uid include_read skip limit =
     (case get_user d uid of
        None \<Rightarrow> []
      | Some u \<Rightarrow>
          let visible = filter (\<lambda>a. status a = ACTIVE \<and> visibility_filter u uid a) (alerts d);
              joined = concat (map (outer_join_preferences d uid) visible);
              wanted = (if include_read then joined
                        else filter (\<lambda>r. case snd r of None \<Rightarrow> True | Some p \<Rightarrow> \<not> is_read p) joined)
          in map (format_row now) (take limit (drop skip wanted)))"

text \<open>Reading and snoozing go through \<^verbatim>\<open>_get_or_create_user_preference\<close>.\<close>

definition get_or_create_user_preference ::
    "db \<Rightarrow> int \<Rightarrow> int \<Rightarrow> user_alert_preference option \<times> db" where
  "get_or_create_user_preference d aid uid =
     (case find_preference d aid uid of
        Some p \<Rightarrow> (Some p, d)
      | None \<Rightarrow>
          (case (get_by_id d aid, get_user d uid) of
             (Some a, Some u) \<Rightarrow>
               (let d1 = add_preference uid aid d in (find_preference d1 aid uid, d1))
           | _ \<Rightarrow> (None, d)))"

definition mark_alert_as_read :: "datetime \<Rightarrow> db \<Rightarrow> int \<Rightarrow> int \<Rightarrow> bool \<times> db" where
  "mark_alert_as_read now d aid uid =
     (case get_or_create_user_preference d aid uid of
        (Some p, d1) \<Rightarrow> (True, update_preference (mark_as_read now p) d1)
      | (None, d1) \<Rightarrow> (False, d1))"

definition snooze_alert_for_user :: "datetime \<Rightarrow> db \<Rightarrow> int \<Rightarrow> int \<Rightarrow> bool \<times> db" where
  "snooze_alert_for_user now d aid uid =
     (case get_or_create_user_preference d aid uid of
        (Some p, d1) \<Rightarrow> (True, update_preference (snooze_for_day now p) d1)
      | (None, d1) \<Rightarrow> (False, d1))"

text \<open>
  \<^verbatim>\<open>get_alerts_requiring_reminders\<close>: the SQL filters, with a comparison against a null
  column counting as not satisfied.
\<close>

definition needs_reminder :: "datetime \<Rightarrow> alert \<Rightarrow> user_alert_preference \<Rightarrow> bool" where
  "needs_reminder now a p =
     (pref_alert_id p = alert_id a \<and> is_read p = False
      \<and> (is_snoozed p = False \<or> (case snoozed_until p of Some u \<Rightarrow> u < now | None \<Rightarrow> False))
      \<and> (case last_reminded_at p of
            None \<Rightarrow> True
          | Some l \<Rightarrow> l < now - hours (reminder_interval_hours a)))"


section \<open>Notification service\<close>

text \<open>
  \<^verbatim>\<open>app/services/notification_service.py\<close>. A channel is a strategy object with one
  method \<^verbatim>\<open>send_notification(alert, user, delivery_record)\<close>; it answers with a
  boolean and may write on the record, and an implementation may also raise. The outcome
  carries the record as the call leaves it.
\<close>

datatype send_outcome =
    Returned bool notification_delivery
  | Raised string notification_delivery

type_synonym notification_channel =
  "datetime \<Rightarrow> alert \<Rightarrow> user \<Rightarrow> notification_delivery \<Rightarrow> send_outcome"

definition InAppChannel :: notification_channel where
  "InAppChannel now a u delivery_record =
     Returned True
       (delivery_record\<lparr>delivery_status := DELIVERED, sent_at := Some now,
                         delivered_at := Some now\<rparr>)"

definition EmailChannel :: notification_channel where
  "EmailChannel now a u delivery_record =
     Returned False
       (delivery_record\<lparr>error_message := Some ''Email delivery not implemented yet''\<rparr>)"

definition SMSChannel :: notification_channel where
  "SMSChannel now a u delivery_record =
     Returned False
       (delivery_record\<lparr>error_message := Some ''SMS delivery not implemented yet''\<rparr>)"

text \<open>The table \<^verbatim>\<open>self.channels\<close> that the constructor builds.\<close>

type_synonym channel_table = "DeliveryChannel \<Rightarrow> notification_channel option"

definition channels :: channel_table where
  "channels c = (case c of IN_APP \<Rightarrow> Some InAppChannel
                         | EMAIL \<Rightarrow> Some EmailChannel
                         | SMS \<Rightarrow> Some SMSChannel)"

fun channel_repr :: "DeliveryChannel \<Rightarrow> string" where
  "channel_repr IN_APP = ''DeliveryChannel.IN_APP''"
| "channel_repr EMAIL = ''DeliveryChannel.EMAIL''"
| "channel_repr SMS = ''DeliveryChannel.SMS''"





definition update_delivery :: "notification_delivery \<Rightarrow> db \<Rightarrow> db" where
  "update_delivery dl d =
     d\<lparr>deliveries := map (\<lambda>x. if delivery_id x = delivery_id dl then dl else x) (deliveries d)\<rparr>"


text \<open>
  \<^verbatim>\<open>_send_notification\<close>: everything sits in one \<^verbatim>\<open>try\<close>, and whatever the channel
  raises ends as a failed record carrying the message.
\<close>

definition send_notification ::
    "channel_table \<Rightarrow> datetime \<Rightarrow> db \<Rightarrow> notification_delivery \<Rightarrow> bool \<times> notification_delivery" where
  "send_notification chans now d delivery =
     (case (get_by_id d (delivery_alert_id delivery), get_user d (delivery_user_id delivery)) of
        (Some a, Some u) \<Rightarrow>
          (case chans (channel delivery) of
             None \<Rightarrow>
               (False, delivery\<lparr>delivery_status := FAILED,
                                error_message :=
                                  Some (''Unsupported channel: '' @ channel_repr (channel delivery))\<rparr>)
           | Some ch \<Rightarrow>
               (case ch now a u delivery of
                  Returned success dl \<Rightarrow>
                    if success then (True, dl) else (False, dl\<lparr>delivery_status := FAILED\<rparr>)
                | Raised e dl \<Rightarrow>
                    (False, dl\<lparr>delivery_status := FAILED, error_message := Some e\<rparr>)))
      | _ \<Rightarrow>
          (False, delivery\<lparr>delivery_status := FAILED,
                           error_message := Some ''Alert or user not found''\<rparr>))"

record send_results =
  sent :: nat
  failed :: nat
  total :: nat

fun send_pending_loop ::
    "channel_table \<Rightarrow> datetime \<Rightarrow> notification_delivery list \<Rightarrow> send_results \<times> db
       \<Rightarrow> send_results \<times> db" where
  "send_pending_loop chans now [] (results, d) = (results, d)"
| "send_pending_loop chans now (delivery # rest) (results, d) =
     (case send_notification chans now d delivery of
        (True, dl) \<Rightarrow>
          send_pending_loop chans now rest (results\<lparr>sent := sent results + 1\<rparr>, update_delivery dl d)
      | (False, dl) \<Rightarrow>
          send_pending_loop chans now rest (results\<lparr>failed := failed results + 1\<rparr>, update_delivery dl d))"

definition send_pending_notifications ::
    "channel_table \<Rightarrow> datetime \<Rightarrow> db \<Rightarrow> send_results \<times> db" where
  "send_pending_notifications chans now d =
     (let pending_notifications = filter (\<lambda>x. delivery_status x = PENDING) (deliveries d)
      in send_pending_loop chans now pending_notifications
           (\<lparr>sent = 0, failed = 0, total = length pending_notifications\<rparr>, d))"






definition mark_notification_as_read ::
    "datetime \<Rightarrow> db \<Rightarrow> int \<Rightarrow> int \<Rightarrow> bool \<times> db" where
  "mark_notification_as_read now d notification_id uid =
     (case find (\<lambda>x. delivery_id x = notification_id \<and> delivery_user_id x = uid) (deliveries d) of
        Some delivery \<Rightarrow>
          (True,
           update_delivery
             (delivery\<lparr>delivery_read_at := Some now,
                       delivery_status :=
                         (if delivery_status delivery = DELIVERED then READ
                          else delivery_status delivery)\<rparr>) d)
      | None \<Rightarrow> (False, d))"

text \<open>
  \<^verbatim>\<open>retry_failed_notifications\<close>: the records to retry are chosen by one query before
  the loop starts. The parameter \<^verbatim>\<open>max_retries\<close> is called \<open>limit\<close> here; the column of
  that name is not read.
\<close>

definition retry_selected :: "datetime \<Rightarrow> int \<Rightarrow> notification_delivery \<Rightarrow> bool" where
  "retry_selected now limit x =
     (delivery_status x = FAILED \<and> retry_count x < limit
      \<and> (case next_retry_at x of None \<Rightarrow> True | Some t \<Rightarrow> t \<le> now))"

definition bump_retry :: "datetime \<Rightarrow> notification_delivery \<Rightarrow> notification_delivery" where
  "bump_retry now x =
     x\<lparr>retry_count := retry_count x + 1,
       next_retry_at := Some (now + minutes (5 * (retry_count x + 1)))\<rparr>"

record retry_results =
  retried :: nat
  succeeded :: nat
  still_failed :: nat

fun retry_loop ::
    "channel_table \<Rightarrow> datetime \<Rightarrow> notification_delivery list \<Rightarrow> retry_results \<times> db
       \<Rightarrow> retry_results \<times> db" where
  "retry_loop chans now [] (results, d) = (results, d)"
| "retry_loop chans now (delivery # rest) (results, d) =
     (case send_notification chans now d (bump_retry now delivery) of
        (True, dl) \<Rightarrow>
          retry_loop chans now rest
            (results\<lparr>succeeded := succeeded results + 1, retried := retried results + 1\<rparr>,
             update_delivery dl d)
      | (False, dl) \<Rightarrow>
          retry_loop chans now rest
            (results\<lparr>still_failed := still_failed results + 1, retried := retried results + 1\<rparr>,
             update_delivery dl d))"

definition retry_failed_notifications ::
    "channel_table \<Rightarrow> datetime \<Rightarrow> int \<Rightarrow> db \<Rightarrow> retry_results \<times> db" where
  "retry_failed_notifications chans now limit d =
     retry_loop chans now (filter (retry_selected now limit) (deliveries d))
       (\<lparr>retried = 0, succeeded = 0, still_failed = 0\<rparr>, d)"

section \<open>Vocabulary of the properties\<close>

text \<open>
  Referential integrity of the preference table: every row points to an alert and a
  user that exist (the foreign keys of \<^verbatim>\<open>user_alert_preferences\<close>).
\<close>

definition references_exist :: "db \<Rightarrow> bool" where
  "references_exist d =
     list_all (\<lambda>p. get_by_id d (pref_alert_id p) \<noteq> None \<and> get_user d (pref_user_id p) \<noteq> None)
       (preferences d)"

text \<open>
  What a channel may do to the record it is handed: the primary key stays. It holds
  for the three channels of the service and for any channel that only writes status,
  timing and error fields.
\<close>

definition outcome_record :: "send_outcome \<Rightarrow> notification_delivery" where
  "outcome_record out = (case out of Returned b dl \<Rightarrow> dl | Raised e dl \<Rightarrow> dl)"

definition keeps_id :: "channel_table \<Rightarrow> bool" where
  "keeps_id chans =
     (\<forall>c ch now a u x. chans c = Some ch \<longrightarrow> delivery_id (outcome_record (ch now a u x)) = delivery_id x)"

definition is_pending :: "notification_delivery \<Rightarrow> bool" where
  "is_pending x = (delivery_status x = PENDING)"

text \<open>
  The retry selection as a reading of "failed, retries left, and next retry time not
  after now" that takes a record without a next retry time as not yet due.
\<close>

definition claimed_selection :: "datetime \<Rightarrow> int \<Rightarrow> notification_delivery \<Rightarrow> bool" where
  "claimed_selection now limit x =
     (delivery_status x = FAILED \<and> retry_count x < limit
      \<and> (case next_retry_at x of None \<Rightarrow> False | Some t \<Rightarrow> t \<le> now))"

text \<open>Successive retry passes with the same limit, one per clock reading.\<close>

fun retry_passes :: "channel_table \<Rightarrow> int \<Rightarrow> datetime list \<Rightarrow> db \<Rightarrow> db" where
  "retry_passes chans limit [] d = d"
| "retry_passes chans limit (now # later) d =
     retry_passes chans limit later (snd (retry_failed_notifications chans now limit d))"



section \<open>Example data\<close>

text \<open>
  Concrete users, alerts, deliveries and databases on which the properties below are
  evaluated. \<open>RaisingChannel\<close> is a channel whose send raises, put in place of the email
  channel in \<open>raising_channels\<close>.
\<close>

definition user5 :: user where
  "user5 = \<lparr>user_id = 5, user_email = ''u5@example.org'', user_team_id = Some 1, user_is_active = True\<rparr>"


definition user7 :: user where
  "user7 = \<lparr>user_id = 7, user_email = ''u7@example.org'', user_team_id = Some 2, user_is_active = False\<rparr>"


definition example_alert :: "VisibilityType \<Rightarrow> int list option \<Rightarrow> alert" where
  "example_alert vis team_ids =
     \<lparr>alert_id = 1, delivery_type = TYPE_IN_APP, visibility_type = vis, status = ACTIVE,
      start_time = 0, expiry_time = None, reminder_interval_hours = 1, reminders_enabled = True,
      target_team_ids = team_ids, target_user_ids = None, created_by = 5\<rparr>"

definition example_db :: "alert list \<Rightarrow> user_alert_preference list \<Rightarrow> notification_delivery list \<Rightarrow> db" where
  "example_db as ps ds =
     \<lparr>users = [user5, user7], teams = [\<lparr>team_id = 1\<rparr>, \<lparr>team_id = 2\<rparr>, \<lparr>team_id = 11\<rparr>],
      alerts = as, preferences = ps, deliveries = ds\<rparr>"

definition example_delivery ::
    "int \<Rightarrow> DeliveryChannel \<Rightarrow> DeliveryStatus \<Rightarrow> int \<Rightarrow> datetime option \<Rightarrow> notification_delivery" where
  "example_delivery i c st retries next_at =
     \<lparr>delivery_id = i, delivery_alert_id = 1, delivery_user_id = 5, channel = c,
      delivery_status = st, delivery_address = None, scheduled_at = 0, sent_at = None,
      delivered_at = None, delivery_read_at = None, retry_count = retries, max_retries = 3,
      next_retry_at = next_at, error_message = None, is_reminder = False,
      reminder_sequence = None\<rparr>"

definition RaisingChannel :: notification_channel where
  "RaisingChannel now a u delivery_record = Raised ''connection refused'' delivery_record"

definition raising_channels :: channel_table where
  "raising_channels c = (if c = EMAIL then Some RaisingChannel else channels c)"




definition read_once_db :: db where
  "read_once_db = example_db [example_alert ORGANIZATION None] [new_preference 1 5 1] []"


definition failed_db :: db where
  "failed_db = example_db [example_alert ORGANIZATION None] []
     [example_delivery 1 EMAIL FAILED 3 (Some 10), example_delivery 2 EMAIL FAILED 1 (Some 40),
      example_delivery 3 IN_APP FAILED 0 None, example_delivery 4 EMAIL FAILED 1 (Some 90)]"

definition pending_db :: db where
  "pending_db = example_db [example_alert ORGANIZATION None] []
     [example_delivery 1 IN_APP PENDING 0 None, example_delivery 2 EMAIL PENDING 0 None,
      example_delivery 3 IN_APP PENDING 0 None]"

definition delivered_db :: db where
  "delivered_db = example_db [example_alert ORGANIZATION None] []
     [example_delivery 1 IN_APP DELIVERED 0 None]"

definition untargeted_db :: db where
  "untargeted_db = example_db [example_alert TEAM (Some [11])] [] []"

section \<open>Auxiliary facts\<close>

subsection \<open>Primary keys and lookups\<close>

lemma next_id_fold: "fold max ids (m::int) \<ge> m \<and> (\<forall>x\<in>set ids. x \<le> fold max ids m)"
proof (induction ids arbitrary: m)
  case Nil show ?case by simp
next
  case (Cons a ids)
  have "max a m \<le> fold max ids (max a m)" using Cons[of "max a m"] by blast
  moreover have "\<forall>x\<in>set ids. x \<le> fold max ids (max a m)" using Cons[of "max a m"] by blast
  ultimately show ?case by auto
qed

lemma next_id_fresh: "x \<in> set ids \<Longrightarrow> x < next_id ids"
  using next_id_fold[of 0 ids] by (auto simp: next_id_def)

lemma find_append_list:
  "find P (xs @ ys) = (case find P xs of None \<Rightarrow> find P ys | Some x \<Rightarrow> Some x)"
  by (induction xs) auto

lemma find_unique_id:
  "distinct (map delivery_id xs) \<Longrightarrow> x \<in> set xs \<Longrightarrow> P x \<Longrightarrow>
   (\<And>y. P y \<Longrightarrow> delivery_id y = delivery_id x) \<Longrightarrow> find P xs = Some x"
proof (induction xs)
  case Nil then show ?case by simp
next
  case (Cons a xs)
  show ?case
  proof (cases "P a")
    case True
    then have "delivery_id a = delivery_id x" using Cons.prems(4) by simp
    moreover have "x = a \<or> x \<in> set xs" using Cons.prems(2) by simp
    moreover have "delivery_id a \<notin> delivery_id ` set xs" using Cons.prems(1) by simp
    ultimately have "a = x" by force
    then show ?thesis using True by simp
  next
    case False
    have "x \<noteq> a" using False Cons.prems(3) by blast
    then have xin: "x \<in> set xs" using Cons.prems(2) by simp
    have dist: "distinct (map delivery_id xs)" using Cons.prems(1) by simp
    have "find P xs = Some x" by (rule Cons.IH[OF dist xin Cons.prems(3) Cons.prems(4)])
    then show ?thesis using False by simp
  qed
qed

lemma find_none_iff_list: "(find P xs = None) = (\<not> list_ex P xs)"
  by (induction xs) auto

lemma find_id_absent:
  "i \<notin> delivery_id ` set xs \<Longrightarrow> find (\<lambda>x. delivery_id x = i) xs = None"
  by (induction xs) auto

lemma find_in_filter_distinct:
  assumes "distinct (map delivery_id ds)" "y \<in> set ds"
  shows "find (\<lambda>x. delivery_id x = delivery_id y) (filter P ds) = (if P y then Some y else None)"
proof (cases "P y")
  case True
  have "find (\<lambda>x. delivery_id x = delivery_id y) (filter P ds) = Some y"
  proof (rule find_unique_id)
    show "distinct (map delivery_id (filter P ds))" using assms(1) by (rule distinct_map_filter)
    show "y \<in> set (filter P ds)" using True assms(2) by simp
  qed simp_all
  then show ?thesis using True by simp
next
  case False
  have "delivery_id y \<notin> delivery_id ` set (filter P ds)"
  proof
    assume "delivery_id y \<in> delivery_id ` set (filter P ds)"
    then obtain z where z: "z \<in> set ds" "P z" "delivery_id z = delivery_id y" by auto
    then have "z = y" using assms by (auto simp: distinct_map inj_on_def)
    then show False using z False by simp
  qed
  then show ?thesis using False by (simp add: find_id_absent)
qed

subsection \<open>Preference rows\<close>

lemma find_update_preference:
  assumes "find_preference d aid uid = Some p" "pref_id q = pref_id p"
      "pref_alert_id q = aid" "pref_user_id q = uid"
  shows "find_preference (update_preference q d) aid uid = Some q"
proof -
  have "find (\<lambda>p. pref_alert_id p = aid \<and> pref_user_id p = uid) ps = Some p \<Longrightarrow>
        find (\<lambda>p. pref_alert_id p = aid \<and> pref_user_id p = uid)
          (map (\<lambda>x. if pref_id x = pref_id q then q else x) ps) = Some q" for ps
    using assms(2-4) by (induction ps) (auto split: if_splits)
  then show ?thesis using assms(1) by (simp add: find_preference_def update_preference_def)
qed

lemma find_add_preference:
  "find_preference d aid uid = None \<Longrightarrow>
   find_preference (add_preference uid aid d) aid uid
     = Some (new_preference (next_id (map pref_id (preferences d))) uid aid)"
  by (simp add: find_preference_def add_preference_def find_append_list new_preference_def
      split: option.splits)

lemma find_preference_fields:
  "find_preference d aid uid = Some p \<Longrightarrow> pref_alert_id p = aid \<and> pref_user_id p = uid \<and> p \<in> set (preferences d)"
  unfolding find_preference_def by (auto simp: find_Some_iff)

lemma get_or_create_existing:
  "find_preference d aid uid = Some p \<Longrightarrow> get_or_create_user_preference d aid uid = (Some p, d)"
  by (simp add: get_or_create_user_preference_def)

lemma get_or_create_new:
  "find_preference d aid uid = None \<Longrightarrow> get_by_id d aid = Some a \<Longrightarrow> get_user d uid = Some u \<Longrightarrow>
   get_or_create_user_preference d aid uid
     = (Some (new_preference (next_id (map pref_id (preferences d))) uid aid), add_preference uid aid d)"
  by (simp add: get_or_create_user_preference_def find_add_preference Let_def)

lemma get_or_create_missing:
  "find_preference d aid uid = None \<Longrightarrow> get_by_id d aid = None \<or> get_user d uid = None \<Longrightarrow>
   get_or_create_user_preference d aid uid = (None, d)"
  by (auto simp: get_or_create_user_preference_def split: option.splits)

lemma get_or_create_found:
  assumes "get_or_create_user_preference d aid uid = (Some p, d1)"
  shows "find_preference d1 aid uid = Some p"
proof (cases "find_preference d aid uid")
  case (Some q)
  from get_or_create_existing[OF Some] assms show ?thesis using Some by simp
next
  case None
  show ?thesis
  proof (cases "get_by_id d aid = None \<or> get_user d uid = None")
    case True
    from get_or_create_missing[OF None True] assms show ?thesis by simp
  next
    case False
    then obtain a u where au: "get_by_id d aid = Some a" "get_user d uid = Some u" by auto
    from get_or_create_new[OF None au] assms find_add_preference[OF None] show ?thesis by auto
  qed
qed

lemma update_new_preference:
  "pref_id q = next_id (map pref_id ps) \<Longrightarrow>
   map (\<lambda>x. if pref_id x = pref_id q then q else x) (ps @ [new_preference (next_id (map pref_id ps)) uid aid])
   = ps @ [q]"
proof -
  assume a: "pref_id q = next_id (map pref_id ps)"
  have "\<forall>x\<in>set ps. pref_id x \<noteq> pref_id q"
    using next_id_fresh[of _ "map pref_id ps"] a by fastforce
  then have "map (\<lambda>x. if pref_id x = pref_id q then q else x) ps = ps"
    by (simp add: map_idI)
  then show ?thesis using a by (simp add: new_preference_def)
qed

lemma gc_fst:
  assumes "references_exist d"
  shows "(fst (get_or_create_user_preference d aid uid) \<noteq> None)
          = (get_by_id d aid \<noteq> None \<and> get_user d uid \<noteq> None)"
proof (cases "find_preference d aid uid")
  case None
  show ?thesis
  proof (cases "get_by_id d aid \<noteq> None \<and> get_user d uid \<noteq> None")
    case True
    then obtain a u where "get_by_id d aid = Some a" "get_user d uid = Some u" by auto
    from get_or_create_new[OF None this] True show ?thesis by simp
  next
    case False
    then have "get_by_id d aid = None \<or> get_user d uid = None" by auto
    from get_or_create_missing[OF None this] False show ?thesis by simp
  qed
next
  case (Some p)
  from find_preference_fields[OF Some] assms
  have "get_by_id d aid \<noteq> None \<and> get_user d uid \<noteq> None"
    by (auto simp: references_exist_def list_all_iff)
  with get_or_create_existing[OF Some] show ?thesis by simp
qed

lemma mark_fst: "fst (mark_alert_as_read now d aid uid) = (fst (get_or_create_user_preference d aid uid) \<noteq> None)"
  by (auto simp: mark_alert_as_read_def split: prod.splits option.splits)

lemma snooze_fst: "fst (snooze_alert_for_user now d aid uid) = (fst (get_or_create_user_preference d aid uid) \<noteq> None)"
  by (auto simp: snooze_alert_for_user_def split: prod.splits option.splits)

lemma mark_created:
  assumes "find_preference d aid uid = None" "get_by_id d aid = Some a" "get_user d uid = Some u"
  shows "mark_alert_as_read now d aid uid =
     (True, d\<lparr>preferences := preferences d @
        [mark_as_read now (new_preference (next_id (map pref_id (preferences d))) uid aid)]\<rparr>)"
proof -
  let ?n = "new_preference (next_id (map pref_id (preferences d))) uid aid"
  have "pref_id (mark_as_read now ?n) = next_id (map pref_id (preferences d))"
    by (simp add: mark_as_read_def new_preference_def)
  from update_new_preference[OF this, of uid aid]
  show ?thesis
    by (simp add: mark_alert_as_read_def get_or_create_new[OF assms] update_preference_def add_preference_def)
qed

lemma snooze_created:
  assumes "find_preference d aid uid = None" "get_by_id d aid = Some a" "get_user d uid = Some u"
  shows "snooze_alert_for_user now d aid uid =
     (True, d\<lparr>preferences := preferences d @
        [snooze_for_day now (new_preference (next_id (map pref_id (preferences d))) uid aid)]\<rparr>)"
proof -
  let ?n = "new_preference (next_id (map pref_id (preferences d))) uid aid"
  have "pref_id (snooze_for_day now ?n) = next_id (map pref_id (preferences d))"
    by (simp add: snooze_for_day_def new_preference_def)
  from update_new_preference[OF this, of uid aid]
  show ?thesis
    by (simp add: snooze_alert_for_user_def get_or_create_new[OF assms] update_preference_def add_preference_def)
qed

lemma mark_missing:
  assumes "references_exist d" "get_by_id d aid = None \<or> get_user d uid = None"
  shows "mark_alert_as_read now d aid uid = (False, d)"
    and "snooze_alert_for_user now d aid uid = (False, d)"
proof -
  have "find_preference d aid uid = None"
  proof (cases "find_preference d aid uid")
    case (Some p)
    from find_preference_fields[OF Some] assms show ?thesis
      by (auto simp: references_exist_def list_all_iff)
  qed simp
  from get_or_create_missing[OF this assms(2)]
  show "mark_alert_as_read now d aid uid = (False, d)"
    and "snooze_alert_for_user now d aid uid = (False, d)"
    by (simp_all add: mark_alert_as_read_def snooze_alert_for_user_def)
qed

lemma mark_alert_as_read_found:
  assumes "fst (mark_alert_as_read t d aid uid)"
  shows "\<exists>p. find_preference (snd (mark_alert_as_read t d aid uid)) aid uid = Some (mark_as_read t p)
           \<and> find_preference (snd (get_or_create_user_preference d aid uid)) aid uid = Some p"
proof -
  obtain r d1 where g: "get_or_create_user_preference d aid uid = (r, d1)" by (cases "get_or_create_user_preference d aid uid")
  from assms g obtain p where r: "r = Some p" by (cases r) (auto simp: mark_alert_as_read_def)
  have f: "find_preference d1 aid uid = Some p" using get_or_create_found g r by simp
  have fl: "pref_alert_id p = aid" "pref_user_id p = uid" using find_preference_fields[OF f] by auto
  have "find_preference (update_preference (mark_as_read t p) d1) aid uid = Some (mark_as_read t p)"
    by (rule find_update_preference[OF f]) (simp_all add: mark_as_read_def fl)
  then show ?thesis using g r f by (auto simp: mark_alert_as_read_def)
qed

lemma mark_alert_as_read_again:
  assumes "find_preference d aid uid = Some q"
  shows "mark_alert_as_read t d aid uid = (True, update_preference (mark_as_read t q) d)"
  by (simp add: mark_alert_as_read_def get_or_create_existing[OF assms])

lemma mark_twice: "mark_as_read t2 (mark_as_read t1 p) = mark_as_read t2 p"
  by (simp add: mark_as_read_def)

subsection \<open>Seeding and rebuilding preferences\<close>

lemma add_preference_frame [simp]:
  "users (add_preference uid aid d) = users d" "alerts (add_preference uid aid d) = alerts d"
  "teams (add_preference uid aid d) = teams d" "deliveries (add_preference uid aid d) = deliveries d"
  by (simp_all add: add_preference_def)

lemma create_preferences_loop_frame [simp]:
  "users (create_preferences_loop a us d) = users d"
  "alerts (create_preferences_loop a us d) = alerts d"
  "teams (create_preferences_loop a us d) = teams d"
  "deliveries (create_preferences_loop a us d) = deliveries d"
  by (induction us arbitrary: d) (simp_all split: option.splits)












text \<open>The resolver itself tests the team id for membership in the decoded list.\<close>

lemma target_users_team_exact:
  "visibility_type a = TEAM \<Longrightarrow>
   (u \<in> set (get_target_users_for_alert d a))
     = (u \<in> set (users d) \<and> user_is_active u
        \<and> (\<exists>t. user_team_id u = Some t
                \<and> t \<in> set (case target_team_ids a of Some ts \<Rightarrow> ts | None \<Rightarrow> [])))"
  by (auto simp: get_target_users_for_alert_def split: option.splits)

subsection \<open>Sending one record\<close>

lemma send_notification_frame:
  "alerts d' = alerts d \<Longrightarrow> users d' = users d \<Longrightarrow>
   send_notification chans now d' x = send_notification chans now d x"
  by (simp add: send_notification_def get_by_id_def get_user_def)

lemma send_notification_keeps_id:
  "keeps_id chans \<Longrightarrow> delivery_id (snd (send_notification chans now d x)) = delivery_id x"
  unfolding keeps_id_def send_notification_def outcome_record_def
  by (auto split: option.splits send_outcome.splits prod.splits)

lemma send_notification_failed:
  "\<not> fst (send_notification chans now d x) \<Longrightarrow> delivery_status (snd (send_notification chans now d x)) = FAILED"
  by (auto simp: send_notification_def split: option.splits send_outcome.splits if_splits)

lemma send_notification_delivered:
  "fst (send_notification channels now d x) \<Longrightarrow> delivery_status (snd (send_notification channels now d x)) = DELIVERED"
  by (auto simp: send_notification_def channels_def InAppChannel_def EmailChannel_def SMSChannel_def
      split: option.splits send_outcome.splits if_splits DeliveryChannel.splits)

lemma send_notification_raised:
  "get_by_id d (delivery_alert_id x) = Some a \<Longrightarrow> get_user d (delivery_user_id x) = Some u \<Longrightarrow>
   chans (channel x) = Some ch \<Longrightarrow> ch now a u x = Raised e x' \<Longrightarrow>
   send_notification chans now d x = (False, x'\<lparr>delivery_status := FAILED, error_message := Some e\<rparr>)"
  by (simp add: send_notification_def)

lemma keeps_id_channels: "keeps_id channels"
  by (auto simp: keeps_id_def channels_def outcome_record_def InAppChannel_def EmailChannel_def
      SMSChannel_def split: DeliveryChannel.splits)

lemma keeps_id_raising: "keeps_id raising_channels"
  using keeps_id_channels
  by (auto simp: keeps_id_def raising_channels_def RaisingChannel_def outcome_record_def)

lemma send_channels_retry_fields:
  "retry_count (snd (send_notification channels now d y)) = retry_count y
   \<and> next_retry_at (snd (send_notification channels now d y)) = next_retry_at y"
  by (auto simp: send_notification_def channels_def InAppChannel_def EmailChannel_def SMSChannel_def
      split: option.splits DeliveryChannel.splits)


lemma update_delivery_frame [simp]:
  "alerts (update_delivery dl d) = alerts d" "users (update_delivery dl d) = users d"
  by (simp_all add: update_delivery_def)

lemma bump_retry_id [simp]: "delivery_id (bump_retry now x) = delivery_id x"
  by (simp add: bump_retry_def)

subsection \<open>The sending loops\<close>

lemma send_pending_loop_db:
  assumes "keeps_id chans"
  shows "distinct (map delivery_id xs) \<Longrightarrow>
     snd (send_pending_loop chans now xs (r, d)) =
       d\<lparr>deliveries :=
           map (\<lambda>y. case find (\<lambda>x. delivery_id x = delivery_id y) xs of
                       Some x \<Rightarrow> snd (send_notification chans now d x)
                     | None \<Rightarrow> y) (deliveries d)\<rparr>"
proof (induction xs arbitrary: r d)
  case Nil
  then show ?case by simp
next
  case (Cons x xs)
  obtain ok dl where s: "send_notification chans now d x = (ok, dl)"
    by (cases "send_notification chans now d x")
  let ?d' = "update_delivery dl d"
  have idl: "delivery_id dl = delivery_id x"
    using send_notification_keeps_id[OF assms, of now d x] s by simp
  have dist: "distinct (map delivery_id xs)" and notin: "delivery_id x \<notin> delivery_id ` set xs"
    using Cons.prems by auto
  have frame: "send_notification chans now ?d' y = send_notification chans now d y" for y
    by (rule send_notification_frame) simp_all
  have step: "snd (send_pending_loop chans now (x # xs) (r, d))
      = snd (send_pending_loop chans now xs
               (if ok then r\<lparr>sent := sent r + 1\<rparr> else r\<lparr>failed := failed r + 1\<rparr>, ?d'))"
    using s by (cases ok) simp_all
  have "snd (send_pending_loop chans now xs
               (if ok then r\<lparr>sent := sent r + 1\<rparr> else r\<lparr>failed := failed r + 1\<rparr>, ?d'))
      = ?d'\<lparr>deliveries :=
           map (\<lambda>y. case find (\<lambda>x. delivery_id x = delivery_id y) xs of
                       Some x \<Rightarrow> snd (send_notification chans now d x)
                     | None \<Rightarrow> y) (deliveries ?d')\<rparr>"
    using Cons.IH[OF dist, of _ ?d'] unfolding frame by simp
  also have "\<dots> = d\<lparr>deliveries :=
           map (\<lambda>y. case find (\<lambda>x'. delivery_id x' = delivery_id y) (x # xs) of
                       Some x \<Rightarrow> snd (send_notification chans now d x)
                     | None \<Rightarrow> y) (deliveries d)\<rparr>"
    using idl s notin by (auto simp: update_delivery_def find_id_absent)
  finally show ?case using step by simp
qed

lemma send_pending_loop_counts:
  "sent (fst (send_pending_loop chans now xs (r, d)))
      = sent r + length (filter (\<lambda>x. fst (send_notification chans now d x)) xs)
   \<and> failed (fst (send_pending_loop chans now xs (r, d)))
      = failed r + length (filter (\<lambda>x. \<not> fst (send_notification chans now d x)) xs)
   \<and> total (fst (send_pending_loop chans now xs (r, d))) = total r"
proof (induction xs arbitrary: r d)
  case Nil
  then show ?case by simp
next
  case (Cons x xs)
  obtain ok dl where s: "send_notification chans now d x = (ok, dl)"
    by (cases "send_notification chans now d x")
  have frame: "send_notification chans now (update_delivery dl d) y = send_notification chans now d y" for y
    by (rule send_notification_frame) simp_all
  show ?case
  proof (cases ok)
    case True
    then show ?thesis using s Cons.IH[of "r\<lparr>sent := sent r + 1\<rparr>" "update_delivery dl d"]
      by (simp add: frame)
  next
    case False
    then show ?thesis using s Cons.IH[of "r\<lparr>failed := failed r + 1\<rparr>" "update_delivery dl d"]
      by (simp add: frame)
  qed
qed

lemma retry_loop_db:
  assumes "keeps_id chans"
  shows "distinct (map delivery_id xs) \<Longrightarrow>
     snd (retry_loop chans now xs (r, d)) =
       d\<lparr>deliveries :=
           map (\<lambda>y. case find (\<lambda>x. delivery_id x = delivery_id y) xs of
                       Some x \<Rightarrow> snd (send_notification chans now d (bump_retry now x))
                     | None \<Rightarrow> y) (deliveries d)\<rparr>"
proof (induction xs arbitrary: r d)
  case Nil
  then show ?case by simp
next
  case (Cons x xs)
  obtain ok dl where s: "send_notification chans now d (bump_retry now x) = (ok, dl)"
    by (cases "send_notification chans now d (bump_retry now x)")
  let ?d' = "update_delivery dl d"
  have idl: "delivery_id dl = delivery_id x"
    using send_notification_keeps_id[OF assms, of now d "bump_retry now x"] s by simp
  have dist: "distinct (map delivery_id xs)" and notin: "delivery_id x \<notin> delivery_id ` set xs"
    using Cons.prems by auto
  have frame: "send_notification chans now ?d' y = send_notification chans now d y" for y
    by (rule send_notification_frame) simp_all
  have step: "\<exists>r'. snd (retry_loop chans now (x # xs) (r, d)) = snd (retry_loop chans now xs (r', ?d'))"
    using s by (cases ok) auto
  then obtain r' where r': "snd (retry_loop chans now (x # xs) (r, d)) = snd (retry_loop chans now xs (r', ?d'))"
    by blast
  have "snd (retry_loop chans now xs (r', ?d'))
      = ?d'\<lparr>deliveries :=
           map (\<lambda>y. case find (\<lambda>x. delivery_id x = delivery_id y) xs of
                       Some x \<Rightarrow> snd (send_notification chans now d (bump_retry now x))
                     | None \<Rightarrow> y) (deliveries ?d')\<rparr>"
    using Cons.IH[OF dist, of r' ?d'] unfolding frame by simp
  also have "\<dots> = d\<lparr>deliveries :=
           map (\<lambda>y. case find (\<lambda>x'. delivery_id x' = delivery_id y) (x # xs) of
                       Some x \<Rightarrow> snd (send_notification chans now d (bump_retry now x))
                     | None \<Rightarrow> y) (deliveries d)\<rparr>"
    using idl s notin by (auto simp: update_delivery_def find_id_absent)
  finally show ?case using r' by simp
qed

lemma retry_loop_counts:
  "retried (fst (retry_loop chans now xs (r, d))) = retried r + length xs
   \<and> succeeded (fst (retry_loop chans now xs (r, d)))
      = succeeded r + length (filter (\<lambda>x. fst (send_notification chans now d (bump_retry now x))) xs)
   \<and> still_failed (fst (retry_loop chans now xs (r, d)))
      = still_failed r + length (filter (\<lambda>x. \<not> fst (send_notification chans now d (bump_retry now x))) xs)"
proof (induction xs arbitrary: r d)
  case Nil
  then show ?case by simp
next
  case (Cons x xs)
  obtain ok dl where s: "send_notification chans now d (bump_retry now x) = (ok, dl)"
    by (cases "send_notification chans now d (bump_retry now x)")
  have frame: "send_notification chans now (update_delivery dl d) y = send_notification chans now d y" for y
    by (rule send_notification_frame) simp_all
  show ?case
  proof (cases ok)
    case True
    then show ?thesis
      using s Cons.IH[of "r\<lparr>succeeded := succeeded r + 1, retried := retried r + 1\<rparr>" "update_delivery dl d"]
      by (simp add: frame)
  next
    case False
    then show ?thesis
      using s Cons.IH[of "r\<lparr>still_failed := still_failed r + 1, retried := retried r + 1\<rparr>" "update_delivery dl d"]
      by (simp add: frame)
  qed
qed

lemma retry_pass_db:
  assumes "keeps_id chans" "distinct (map delivery_id (deliveries d))"
  shows "snd (retry_failed_notifications chans now limit d)
       = d\<lparr>deliveries := map (\<lambda>x. if retry_selected now limit x
                                     then snd (send_notification chans now d (bump_retry now x)) else x)
                              (deliveries d)\<rparr>"
proof -
  let ?xs = "filter (retry_selected now limit) (deliveries d)"
  have "distinct (map delivery_id ?xs)" using assms(2) by (rule distinct_map_filter)
  from retry_loop_db[OF assms(1) this]
  have "snd (retry_failed_notifications chans now limit d) =
       d\<lparr>deliveries :=
           map (\<lambda>y. case find (\<lambda>x. delivery_id x = delivery_id y) ?xs of
                       Some x \<Rightarrow> snd (send_notification chans now d (bump_retry now x))
                     | None \<Rightarrow> y) (deliveries d)\<rparr>"
    by (simp add: retry_failed_notifications_def)
  moreover have "map (\<lambda>y. case find (\<lambda>x. delivery_id x = delivery_id y) ?xs of
                       Some x \<Rightarrow> snd (send_notification chans now d (bump_retry now x))
                     | None \<Rightarrow> y) (deliveries d)
       = map (\<lambda>x. if retry_selected now limit x
                    then snd (send_notification chans now d (bump_retry now x)) else x) (deliveries d)"
    by (rule map_cong[OF refl]) (simp add: find_in_filter_distinct[OF assms(2)])
  ultimately show ?thesis by simp
qed

lemma retry_pass_ids:
  assumes "keeps_id chans" "distinct (map delivery_id (deliveries d))"
  shows "map delivery_id (deliveries (snd (retry_failed_notifications chans now limit d)))
       = map delivery_id (deliveries d)"
  by (simp add: retry_pass_db[OF assms] send_notification_keeps_id[OF assms(1)])

lemma exhausted_not_selected:
  "limit \<le> retry_count x \<Longrightarrow> \<not> retry_selected now limit x"
  by (simp add: retry_selected_def)

lemma retry_pass_keeps:
  assumes "keeps_id chans" "distinct (map delivery_id (deliveries d))"
    "x \<in> set (deliveries d)" "limit \<le> retry_count x"
  shows "x \<in> set (deliveries (snd (retry_failed_notifications chans now limit d)))"
proof -
  have "(\<lambda>x. if retry_selected now limit x
              then snd (send_notification chans now d (bump_retry now x)) else x) x = x"
    using exhausted_not_selected[OF assms(4)] by simp
  then show ?thesis
    unfolding retry_pass_db[OF assms(1,2)] using assms(3) by (force simp: image_iff)
qed

lemma retry_passes_keep:
  assumes "keeps_id chans"
  shows "distinct (map delivery_id (deliveries d)) \<Longrightarrow> x \<in> set (deliveries d) \<Longrightarrow>
     limit \<le> retry_count x \<Longrightarrow> x \<in> set (deliveries (retry_passes chans limit ts d))"
proof (induction ts arbitrary: d)
  case Nil
  then show ?case by simp
next
  case (Cons now ts)
  let ?d' = "snd (retry_failed_notifications chans now limit d)"
  have "distinct (map delivery_id (deliveries ?d'))"
    using retry_pass_ids[OF assms Cons.prems(1)] Cons.prems(1) by simp
  moreover have "x \<in> set (deliveries ?d')"
    by (rule retry_pass_keeps[OF assms Cons.prems])
  ultimately show ?case using Cons.IH[of ?d'] Cons.prems(3) by simp
qed


subsection \<open>Validation and the reminder query\<close>


lemma validate_model_team_raises:
  "validate_alert_targeting d (ModelVisibility TEAM) None uids
     = Some (ValueError ''Team IDs required for team-specific alerts'')"
  by (simp add: validate_alert_targeting_def)

text \<open>
  The SQL filter of the reminder pass and the property on the row agree except on the
  boundary instants and on a snoozed row without an end time.
\<close>

lemma needs_reminder_agrees:
  "pref_alert_id p = alert_id a \<Longrightarrow> snoozed_until p \<noteq> Some now \<Longrightarrow>
   (is_snoozed p \<longrightarrow> snoozed_until p \<noteq> None) \<Longrightarrow>
   last_reminded_at p \<noteq> Some (now - hours (reminder_interval_hours a)) \<Longrightarrow>
   needs_reminder now a p = fst (should_receive_reminder now (Some a) p)"
  by (auto simp: needs_reminder_def should_receive_reminder_def hours_def Let_def split: option.splits)

section \<open>Claims\<close>

text \<open>
  C1. For an alert with team visibility, a user is a recipient (resolved as a target,
  and shown the alert by \<^verbatim>\<open>get_alerts_for_user\<close>) exactly when the user is active and
  the user's team id is a member of the alert's target team ids; a team id that is only
  a substring of a targeted id (1 against 11) does not count.

  The resolver does test membership (\<open>target_users_team_exact\<close>), but the listing
  matches the decimal text of the user's team id inside the stored JSON text. With an
  active alert that targets team 11 only and an active user of team 1, the resolver
  returns no user while the listing for that user returns the alert.
\<close>

theorem list_alerts_matches_team_id_as_substring: "map (\<lambda>r. alert_id (row_alert r))
        (get_alerts_for_user 100 (example_db [example_alert TEAM (Some [11])] [] []) 5 True 0 100) = [1]
   \<and> get_target_users_for_alert (example_db [example_alert TEAM (Some [11])] [] [])
        (example_alert TEAM (Some [11])) = []"
  by code_simp




text \<open>
  C4. Marking read is idempotent: one call gives \<^verbatim>\<open>is_read\<close> true with \<^verbatim>\<open>read_at\<close> the
  time of that call, and a second call is a no-op that leaves the state identical, in
  particular \<^verbatim>\<open>read_at\<close> unchanged.

  \<^verbatim>\<open>mark_as_read\<close> writes \<^verbatim>\<open>read_at\<close> and \<^verbatim>\<open>updated_at\<close> on every call. A first call at
  time 100 and a second at time 200 leave \<^verbatim>\<open>read_at\<close> at 200, and the database after the
  second call differs from the one after the first.
\<close>

theorem mark_read_twice_changes_read_at:
  "map read_at (preferences (snd (mark_alert_as_read 100 read_once_db 1 5))) = [Some 100]
   \<and> map read_at (preferences (snd (mark_alert_as_read 200 (snd (mark_alert_as_read 100 read_once_db 1 5)) 1 5)))
       = [Some 200]
   \<and> snd (mark_alert_as_read 200 (snd (mark_alert_as_read 100 read_once_db 1 5)) 1 5)
       \<noteq> snd (mark_alert_as_read 100 read_once_db 1 5)"
  by code_simp

text \<open>
  C4 as the code has it: a call gives \<^verbatim>\<open>is_read\<close> true with \<^verbatim>\<open>read_at\<close> the time of
  that call; a second call succeeds too and keeps \<^verbatim>\<open>is_read\<close> true, but the row ends as
  if only the second call had been made: \<^verbatim>\<open>read_at\<close> is the time of the second call.
  The same holds through \<^verbatim>\<open>mark_alert_as_read\<close>: when the first call succeeds, so does
  the second, and the row found for the pair carries the time of the second call.
\<close>

theorem mark_read_last_call_wins:
  "is_read (mark_as_read t1 p) \<and> read_at (mark_as_read t1 p) = Some t1
   \<and> mark_as_read t2 (mark_as_read t1 p) = mark_as_read t2 p
   \<and> read_at (mark_as_read t2 (mark_as_read t1 p)) = Some t2
   \<and> (fst (mark_alert_as_read t1 d aid uid) \<longrightarrow>
        fst (mark_alert_as_read t2 (snd (mark_alert_as_read t1 d aid uid)) aid uid)
        \<and> (\<exists>q. find_preference (snd (mark_alert_as_read t1 d aid uid)) aid uid = Some (mark_as_read t1 q)
              \<and> find_preference (snd (mark_alert_as_read t2 (snd (mark_alert_as_read t1 d aid uid)) aid uid))
                   aid uid = Some (mark_as_read t2 q)))"
proof -
  have svc: "fst (mark_alert_as_read t2 (snd (mark_alert_as_read t1 d aid uid)) aid uid)
        \<and> (\<exists>q. find_preference (snd (mark_alert_as_read t1 d aid uid)) aid uid = Some (mark_as_read t1 q)
              \<and> find_preference (snd (mark_alert_as_read t2 (snd (mark_alert_as_read t1 d aid uid)) aid uid))
                   aid uid = Some (mark_as_read t2 q))"
    if ok: "fst (mark_alert_as_read t1 d aid uid)"
  proof -
    let ?d1 = "snd (mark_alert_as_read t1 d aid uid)"
    from mark_alert_as_read_found[OF ok] obtain q where
      q: "find_preference ?d1 aid uid = Some (mark_as_read t1 q)" by blast
    have second: "mark_alert_as_read t2 ?d1 aid uid
        = (True, update_preference (mark_as_read t2 (mark_as_read t1 q)) ?d1)"
      by (rule mark_alert_as_read_again[OF q])
    have fl: "pref_alert_id (mark_as_read t1 q) = aid" "pref_user_id (mark_as_read t1 q) = uid"
      using find_preference_fields[OF q] by auto
    have "find_preference (update_preference (mark_as_read t2 (mark_as_read t1 q)) ?d1) aid uid
            = Some (mark_as_read t2 (mark_as_read t1 q))"
      using fl by (intro find_update_preference[OF q]) (simp_all add: mark_as_read_def)
    then show ?thesis using q second by (auto simp: mark_twice)
  qed
  show ?thesis using svc by (simp add: mark_as_read_def)
qed

theorem mark_read_last_call_wins_witness:
  "fst (mark_alert_as_read 100 read_once_db 1 5)
   \<and> fst (mark_alert_as_read 200 (snd (mark_alert_as_read 100 read_once_db 1 5)) 1 5)
   \<and> mark_as_read 200 (mark_as_read 100 (new_preference 1 5 1)) = mark_as_read 200 (new_preference 1 5 1)"
proof -
  have h: "fst (mark_alert_as_read 100 read_once_db 1 5)" by code_simp
  from mark_read_last_call_wins[of 100 "new_preference 1 5 1" 200 read_once_db 1 5] h show ?thesis by blast
qed




text \<open>
  C6. \<^verbatim>\<open>retry_failed_notifications\<close> selects exactly the failed records with retries
  left and a next retry time not after now; for each it increments the retry count,
  sets the next retry time to now plus five minutes times the new count, and attempts
  the send again; a record whose retries are exhausted stays failed and is never
  selected again.

  The query also takes a failed record that has no next retry time yet (one that has
  never been retried): such a record is retried at once.
\<close>

theorem retry_selects_unscheduled_record:
  "claimed_selection 50 3 (example_delivery 3 IN_APP FAILED 0 None) = False
   \<and> map retry_count (deliveries failed_db) = [3, 1, 0, 1]
   \<and> map retry_count (deliveries (snd (retry_failed_notifications channels 50 3 failed_db))) = [3, 2, 1, 1]
   \<and> map delivery_status (deliveries (snd (retry_failed_notifications channels 50 3 failed_db)))
        = [FAILED, FAILED, DELIVERED, FAILED]
   \<and> retried (fst (retry_failed_notifications channels 50 3 failed_db)) = 2"
  by code_simp

text \<open>
  C6 as the code has it, for a delivery table with distinct primary keys: the pass
  rewrites exactly the selected records, and a record is selected when it is failed,
  has retries left, and its next retry time is unset or not after now. A selected
  record gets its retry count incremented and its next retry time set to now plus five
  minutes times the new count, and ends delivered or failed as the new attempt
  decides. The counters add up. A failed record with its retries exhausted is not
  selected and is still in the table, unchanged, after any number of passes with that
  limit.
\<close>

theorem retry_failed_notifications_pass:
  assumes "distinct (map delivery_id (deliveries d))"
  shows "snd (retry_failed_notifications channels now limit d)
       = d\<lparr>deliveries := map (\<lambda>x. if retry_selected now limit x
                                     then snd (send_notification channels now d (bump_retry now x)) else x)
                              (deliveries d)\<rparr>
     \<and> retry_selected now limit x
         = (claimed_selection now limit x
            \<or> (delivery_status x = FAILED \<and> retry_count x < limit \<and> next_retry_at x = None))
     \<and> retry_count (snd (send_notification channels now d (bump_retry now x))) = retry_count x + 1
     \<and> next_retry_at (snd (send_notification channels now d (bump_retry now x)))
         = Some (now + minutes (5 * (retry_count x + 1)))
     \<and> delivery_status (snd (send_notification channels now d (bump_retry now x)))
         = (if fst (send_notification channels now d (bump_retry now x)) then DELIVERED else FAILED)
     \<and> retried (fst (retry_failed_notifications channels now limit d))
         = length (filter (retry_selected now limit) (deliveries d))
     \<and> succeeded (fst (retry_failed_notifications channels now limit d))
         + still_failed (fst (retry_failed_notifications channels now limit d))
         = retried (fst (retry_failed_notifications channels now limit d))
     \<and> (x \<in> set (deliveries d) \<and> delivery_status x = FAILED \<and> limit \<le> retry_count x \<longrightarrow>
          \<not> retry_selected now limit x
          \<and> x \<in> set (deliveries (retry_passes channels limit ts d)))"
proof -
  note counts = retry_loop_counts[of channels now "filter (retry_selected now limit) (deliveries d)"
      "\<lparr>retried = 0, succeeded = 0, still_failed = 0\<rparr>" d]
  have split: "length (filter (\<lambda>x. fst (send_notification channels now d (bump_retry now x)))
                  (filter (retry_selected now limit) (deliveries d)))
       + length (filter (\<lambda>x. \<not> fst (send_notification channels now d (bump_retry now x)))
                  (filter (retry_selected now limit) (deliveries d)))
       = length (filter (retry_selected now limit) (deliveries d))"
    by (rule sum_length_filter_compl)
  have list_alerts_matches_team_id_as_substring: "snd (retry_failed_notifications channels now limit d)
       = d\<lparr>deliveries := map (\<lambda>x. if retry_selected now limit x
                                     then snd (send_notification channels now d (bump_retry now x)) else x)
                              (deliveries d)\<rparr>"
    by (rule retry_pass_db[OF keeps_id_channels assms])
  have should_receive_reminder_decision: "retry_selected now limit x
         = (claimed_selection now limit x
            \<or> (delivery_status x = FAILED \<and> retry_count x < limit \<and> next_retry_at x = None))"
    by (auto simp: retry_selected_def claimed_selection_def split: option.splits)
  have reminder_delivery_has_no_sequence: "retry_count (snd (send_notification channels now d (bump_retry now x))) = retry_count x + 1"
    and mark_read_last_call_wins: "next_retry_at (snd (send_notification channels now d (bump_retry now x)))
         = Some (now + minutes (5 * (retry_count x + 1)))"
    by (simp_all add: send_channels_retry_fields bump_retry_def)
  have retarget_rebuilds_preferences: "delivery_status (snd (send_notification channels now d (bump_retry now x)))
         = (if fst (send_notification channels now d (bump_retry now x)) then DELIVERED else FAILED)"
    using send_notification_failed[of channels now d "bump_retry now x"]
      send_notification_delivered[of now d "bump_retry now x"] by simp
  have retry_failed_notifications_pass: "retried (fst (retry_failed_notifications channels now limit d))
         = length (filter (retry_selected now limit) (deliveries d))"
    using counts by (simp add: retry_failed_notifications_def)
  have send_pending_notifications_pass: "succeeded (fst (retry_failed_notifications channels now limit d))
         + still_failed (fst (retry_failed_notifications channels now limit d))
         = retried (fst (retry_failed_notifications channels now limit d))"
    using counts split by (simp add: retry_failed_notifications_def)
  have mark_notification_as_read_owner: "x \<in> set (deliveries d) \<and> delivery_status x = FAILED \<and> limit \<le> retry_count x \<longrightarrow>
          \<not> retry_selected now limit x
          \<and> x \<in> set (deliveries (retry_passes channels limit ts d))"
    using retry_passes_keep[OF keeps_id_channels assms, of x limit ts] exhausted_not_selected[of limit x now]
    by blast
  show ?thesis using list_alerts_matches_team_id_as_substring should_receive_reminder_decision reminder_delivery_has_no_sequence mark_read_last_call_wins retarget_rebuilds_preferences retry_failed_notifications_pass send_pending_notifications_pass mark_notification_as_read_owner by blast
qed

theorem retry_failed_notifications_pass_witness:
  "distinct (map delivery_id (deliveries failed_db))
   \<and> retried (fst (retry_failed_notifications channels 50 3 failed_db)) = 2
   \<and> succeeded (fst (retry_failed_notifications channels 50 3 failed_db))
       + still_failed (fst (retry_failed_notifications channels 50 3 failed_db)) = 2
   \<and> retry_selected 50 3 (example_delivery 1 EMAIL FAILED 3 (Some 10)) = False
   \<and> example_delivery 1 EMAIL FAILED 3 (Some 10)
       \<in> set (deliveries (retry_passes channels 3 [50, minutes 20, minutes 60] failed_db))"
proof -
  have h: "distinct (map delivery_id (deliveries failed_db))" by code_simp
  have e: "retried (fst (retry_failed_notifications channels 50 3 failed_db)) = 2
     \<and> example_delivery 1 EMAIL FAILED 3 (Some 10) \<in> set (deliveries failed_db)
     \<and> delivery_status (example_delivery 1 EMAIL FAILED 3 (Some 10)) = FAILED
     \<and> (3::int) \<le> retry_count (example_delivery 1 EMAIL FAILED 3 (Some 10))"
    by code_simp
  note r = retry_failed_notifications_pass[OF h, of 50 3 "example_delivery 1 EMAIL FAILED 3 (Some 10)" "[50, minutes 20, minutes 60]"]
  have a: "succeeded (fst (retry_failed_notifications channels 50 3 failed_db))
       + still_failed (fst (retry_failed_notifications channels 50 3 failed_db))
       = retried (fst (retry_failed_notifications channels 50 3 failed_db))"
    using r by blast
  have b: "\<not> retry_selected 50 3 (example_delivery 1 EMAIL FAILED 3 (Some 10))
       \<and> example_delivery 1 EMAIL FAILED 3 (Some 10)
           \<in> set (deliveries (retry_passes channels 3 [50, minutes 20, minutes 60] failed_db))"
    using r e by blast
  show ?thesis using h e a b by simp
qed

text \<open>
  C7. \<^verbatim>\<open>send_pending_notifications\<close> attempts every pending record, moving each to
  delivered on channel success or to failed on channel failure; a failure of one
  record, an exception included, never stops the remaining records; and the counts
  satisfy sent + failed = total, the number of pending records at the start.

  Stated for any channel table whose channels keep the record's primary key, on a
  delivery table with distinct primary keys: the pass rewrites exactly the pending
  records, each with the outcome of its own send; a send that does not succeed, and in
  particular one whose channel raises, leaves the record failed; with the channels of
  the service a successful send leaves it delivered.
\<close>

theorem send_pending_notifications_pass:
  assumes "keeps_id chans" "distinct (map delivery_id (deliveries d))"
  shows "total (fst (send_pending_notifications chans now d)) = length (filter is_pending (deliveries d))
     \<and> sent (fst (send_pending_notifications chans now d))
         + failed (fst (send_pending_notifications chans now d))
       = total (fst (send_pending_notifications chans now d))
     \<and> sent (fst (send_pending_notifications chans now d))
       = length (filter (\<lambda>x. is_pending x \<and> fst (send_notification chans now d x)) (deliveries d))
     \<and> snd (send_pending_notifications chans now d)
       = d\<lparr>deliveries := map (\<lambda>x. if is_pending x then snd (send_notification chans now d x) else x)
                              (deliveries d)\<rparr>
     \<and> (\<forall>x. \<not> fst (send_notification chans now d x) \<longrightarrow>
              delivery_status (snd (send_notification chans now d x)) = FAILED)
     \<and> (\<forall>x a u ch e x'. get_by_id d (delivery_alert_id x) = Some a \<and> get_user d (delivery_user_id x) = Some u
              \<and> chans (channel x) = Some ch \<and> ch now a u x = Raised e x' \<longrightarrow>
              \<not> fst (send_notification chans now d x))
     \<and> (\<forall>x. fst (send_notification channels now d x) \<longrightarrow>
              delivery_status (snd (send_notification channels now d x)) = DELIVERED)"
proof -
  let ?P = "\<lambda>x. delivery_status x = PENDING"
  let ?xs = "filter ?P (deliveries d)"
  let ?r0 = "\<lparr>sent = 0, failed = 0, total = length ?xs\<rparr>"
  have unfold: "send_pending_notifications chans now d = send_pending_loop chans now ?xs (?r0, d)"
    by (simp add: send_pending_notifications_def Let_def)
  have pend: "is_pending = ?P" by (rule ext) (simp add: is_pending_def)
  note counts = send_pending_loop_counts[of chans now ?xs ?r0 d]
  have split: "length (filter (\<lambda>x. fst (send_notification chans now d x)) ?xs)
       + length (filter (\<lambda>x. \<not> fst (send_notification chans now d x)) ?xs) = length ?xs"
    by (rule sum_length_filter_compl)
  have list_alerts_matches_team_id_as_substring: "total (fst (send_pending_notifications chans now d)) = length (filter is_pending (deliveries d))"
    using counts by (simp add: unfold pend)
  have should_receive_reminder_decision: "sent (fst (send_pending_notifications chans now d))
         + failed (fst (send_pending_notifications chans now d))
       = total (fst (send_pending_notifications chans now d))"
    using counts split by (simp add: unfold)
  have reminder_delivery_has_no_sequence: "sent (fst (send_pending_notifications chans now d))
       = length (filter (\<lambda>x. is_pending x \<and> fst (send_notification chans now d x)) (deliveries d))"
    using counts by (simp add: unfold pend conj_commute)
  have "distinct (map delivery_id ?xs)" using assms(2) by (rule distinct_map_filter)
  from send_pending_loop_db[OF assms(1) this, of now ?r0 d]
  have "snd (send_pending_notifications chans now d) =
       d\<lparr>deliveries :=
           map (\<lambda>y. case find (\<lambda>x. delivery_id x = delivery_id y) ?xs of
                       Some x \<Rightarrow> snd (send_notification chans now d x)
                     | None \<Rightarrow> y) (deliveries d)\<rparr>"
    by (simp add: unfold)
  moreover have "map (\<lambda>y. case find (\<lambda>x. delivery_id x = delivery_id y) ?xs of
                       Some x \<Rightarrow> snd (send_notification chans now d x)
                     | None \<Rightarrow> y) (deliveries d)
       = map (\<lambda>x. if is_pending x then snd (send_notification chans now d x) else x) (deliveries d)"
    by (rule map_cong[OF refl]) (simp add: find_in_filter_distinct[OF assms(2)] pend)
  ultimately have mark_read_last_call_wins: "snd (send_pending_notifications chans now d)
       = d\<lparr>deliveries := map (\<lambda>x. if is_pending x then snd (send_notification chans now d x) else x)
                              (deliveries d)\<rparr>"
    by simp
  have retry_failed_notifications_pass: "\<forall>x a u ch e x'. get_by_id d (delivery_alert_id x) = Some a \<and> get_user d (delivery_user_id x) = Some u
              \<and> chans (channel x) = Some ch \<and> ch now a u x = Raised e x' \<longrightarrow>
              \<not> fst (send_notification chans now d x)"
    by (auto simp: send_notification_raised)
  show ?thesis
    using list_alerts_matches_team_id_as_substring should_receive_reminder_decision reminder_delivery_has_no_sequence mark_read_last_call_wins retry_failed_notifications_pass send_notification_failed send_notification_delivered by blast
qed

theorem send_pending_notifications_pass_witness:
  "keeps_id raising_channels \<and> distinct (map delivery_id (deliveries pending_db))
   \<and> total (fst (send_pending_notifications raising_channels 50 pending_db)) = 3
   \<and> sent (fst (send_pending_notifications raising_channels 50 pending_db)) = 2
   \<and> failed (fst (send_pending_notifications raising_channels 50 pending_db)) = 1
   \<and> map delivery_status (deliveries (snd (send_pending_notifications raising_channels 50 pending_db)))
        = [DELIVERED, FAILED, DELIVERED]
   \<and> map error_message (deliveries (snd (send_pending_notifications raising_channels 50 pending_db)))
        = [None, Some ''connection refused'', None]"
proof -
  have h: "distinct (map delivery_id (deliveries pending_db))" by code_simp
  have e: "length (filter is_pending (deliveries pending_db)) = 3
     \<and> sent (fst (send_pending_notifications raising_channels 50 pending_db)) = 2
     \<and> map delivery_status (deliveries (snd (send_pending_notifications raising_channels 50 pending_db)))
        = [DELIVERED, FAILED, DELIVERED]
     \<and> map error_message (deliveries (snd (send_pending_notifications raising_channels 50 pending_db)))
        = [None, Some ''connection refused'', None]"
    by code_simp
  from send_pending_notifications_pass[OF keeps_id_raising h, of 50] keeps_id_raising h e show ?thesis by simp
qed

text \<open>
  C8. \<^verbatim>\<open>mark_notification_as_read\<close> moves a delivered record to read and sets its read
  time; when no delivery with that id belongs to the calling user it returns false and
  changes nothing.
\<close>

theorem mark_notification_as_read_owner:
  "(\<not> list_ex (\<lambda>x. delivery_id x = nid \<and> delivery_user_id x = uid) (deliveries d) \<longrightarrow>
       mark_notification_as_read now d nid uid = (False, d))
   \<and> (distinct (map delivery_id (deliveries d)) \<and> x \<in> set (deliveries d) \<and> delivery_id x = nid
        \<and> delivery_user_id x = uid \<and> delivery_status x = DELIVERED \<longrightarrow>
       mark_notification_as_read now d nid uid =
         (True, d\<lparr>deliveries :=
                   map (\<lambda>y. if delivery_id y = nid
                             then y\<lparr>delivery_read_at := Some now, delivery_status := READ\<rparr> else y)
                       (deliveries d)\<rparr>))"
proof (intro conjI impI)
  assume "\<not> list_ex (\<lambda>x. delivery_id x = nid \<and> delivery_user_id x = uid) (deliveries d)"
  then have "find (\<lambda>x. delivery_id x = nid \<and> delivery_user_id x = uid) (deliveries d) = None"
    by (simp add: find_none_iff_list)
  then show "mark_notification_as_read now d nid uid = (False, d)"
    by (simp add: mark_notification_as_read_def)
next
  assume a: "distinct (map delivery_id (deliveries d)) \<and> x \<in> set (deliveries d) \<and> delivery_id x = nid
        \<and> delivery_user_id x = uid \<and> delivery_status x = DELIVERED"
  then have f: "find (\<lambda>x. delivery_id x = nid \<and> delivery_user_id x = uid) (deliveries d) = Some x"
    by (intro find_unique_id) auto
  have "map (\<lambda>y. if delivery_id y = nid then x\<lparr>delivery_read_at := Some now, delivery_status := READ\<rparr> else y) (deliveries d)
      = map (\<lambda>y. if delivery_id y = nid then y\<lparr>delivery_read_at := Some now, delivery_status := READ\<rparr> else y) (deliveries d)"
  proof (rule map_cong[OF refl])
    fix y assume "y \<in> set (deliveries d)"
    then have "delivery_id y = nid \<Longrightarrow> y = x" using a by (auto simp: distinct_map inj_on_def)
    then show "(if delivery_id y = nid then x\<lparr>delivery_read_at := Some now, delivery_status := READ\<rparr> else y)
       = (if delivery_id y = nid then y\<lparr>delivery_read_at := Some now, delivery_status := READ\<rparr> else y)"
      by auto
  qed
  then show "mark_notification_as_read now d nid uid =
         (True, d\<lparr>deliveries :=
                   map (\<lambda>y. if delivery_id y = nid
                             then y\<lparr>delivery_read_at := Some now, delivery_status := READ\<rparr> else y)
                       (deliveries d)\<rparr>)"
    using a by (simp add: mark_notification_as_read_def f update_delivery_def)
qed

theorem mark_notification_as_read_owner_witness:
  "mark_notification_as_read 70 delivered_db 1 7 = (False, delivered_db)
   \<and> fst (mark_notification_as_read 70 delivered_db 1 5)
   \<and> map delivery_status (deliveries (snd (mark_notification_as_read 70 delivered_db 1 5))) = [READ]
   \<and> map delivery_read_at (deliveries (snd (mark_notification_as_read 70 delivered_db 1 5))) = [Some 70]"
proof -
  have e: "\<not> list_ex (\<lambda>x. delivery_id x = 1 \<and> delivery_user_id x = 7) (deliveries delivered_db)
     \<and> distinct (map delivery_id (deliveries delivered_db))
     \<and> example_delivery 1 IN_APP DELIVERED 0 None \<in> set (deliveries delivered_db)
     \<and> delivery_id (example_delivery 1 IN_APP DELIVERED 0 None) = 1
     \<and> delivery_user_id (example_delivery 1 IN_APP DELIVERED 0 None) = 5
     \<and> delivery_status (example_delivery 1 IN_APP DELIVERED 0 None) = DELIVERED
     \<and> deliveries delivered_db = [example_delivery 1 IN_APP DELIVERED 0 None]"
    by code_simp
  from mark_notification_as_read_owner[where nid = 1 and uid = 7 and d = delivered_db and now = 70
            and x = "example_delivery 1 IN_APP DELIVERED 0 None"]
       mark_notification_as_read_owner[where nid = 1 and uid = 5 and d = delivered_db and now = 70
            and x = "example_delivery 1 IN_APP DELIVERED 0 None"] e
  show ?thesis by simp
qed


text \<open>
  C10. For an existing alert id and an existing user id, marking read and snoozing
  succeed and create the preference row when there is none, whether or not the alert
  targets the user; they return false exactly when the alert id or the user id does
  not exist.

  Stated for a preference table whose rows point to existing alerts and users.
\<close>

theorem read_and_snooze_succeed_iff_ids_exist:
  assumes "references_exist d"
  shows "fst (mark_alert_as_read now d aid uid) = (get_by_id d aid \<noteq> None \<and> get_user d uid \<noteq> None)
     \<and> fst (snooze_alert_for_user now d aid uid) = (get_by_id d aid \<noteq> None \<and> get_user d uid \<noteq> None)
     \<and> (get_by_id d aid \<noteq> None \<and> get_user d uid \<noteq> None \<and> find_preference d aid uid = None \<longrightarrow>
          preferences (snd (mark_alert_as_read now d aid uid)) = preferences d @
            [mark_as_read now (new_preference (next_id (map pref_id (preferences d))) uid aid)]
        \<and> preferences (snd (snooze_alert_for_user now d aid uid)) = preferences d @
            [snooze_for_day now (new_preference (next_id (map pref_id (preferences d))) uid aid)])
     \<and> (get_by_id d aid = None \<or> get_user d uid = None \<longrightarrow>
          snd (mark_alert_as_read now d aid uid) = d \<and> snd (snooze_alert_for_user now d aid uid) = d)"
  using gc_fst[OF assms, of aid uid] mark_missing[OF assms, of aid uid now]
  by (auto simp: mark_fst snooze_fst mark_created snooze_created)

theorem read_and_snooze_succeed_iff_ids_exist_witness:
  "references_exist untargeted_db
   \<and> get_target_users_for_alert untargeted_db (example_alert TEAM (Some [11])) = []
   \<and> fst (mark_alert_as_read 30 untargeted_db 1 7)
   \<and> fst (snooze_alert_for_user 30 untargeted_db 1 7)
   \<and> preferences (snd (mark_alert_as_read 30 untargeted_db 1 7)) = [mark_as_read 30 (new_preference 1 7 1)]
   \<and> \<not> fst (mark_alert_as_read 30 untargeted_db 1 9)
   \<and> \<not> fst (snooze_alert_for_user 30 untargeted_db 2 5)"
proof -
  have h: "references_exist untargeted_db" by code_simp
  have e: "get_target_users_for_alert untargeted_db (example_alert TEAM (Some [11])) = []
     \<and> get_by_id untargeted_db 1 \<noteq> None \<and> get_user untargeted_db 7 \<noteq> None
     \<and> find_preference untargeted_db 1 7 = None
     \<and> get_user untargeted_db 9 = None \<and> get_by_id untargeted_db 2 = None
     \<and> preferences untargeted_db = []"
    by code_simp
  from read_and_snooze_succeed_iff_ids_exist[OF h, of 30 1 7] read_and_snooze_succeed_iff_ids_exist[OF h, of 30 1 9] read_and_snooze_succeed_iff_ids_exist[OF h, of 30 2 5] h e
  show ?thesis by (simp add: next_id_def)
qed

end
